theory Spec2Isabelle
  imports Main "HOL-Library.Word" "HOL-Library.AList" "HOL-Library.Sublist"
begin

section \<open>Strings of the host language\<close>

text \<open>
  A string of the source language is a sequence of 16-bit code units. \<open>js\<close> turns a
  literal of the theory into such a string (the literals of the source are ASCII).
\<close>

type_synonym jsstring = "16 word list"

definition js :: "string \<Rightarrow> jsstring" where
  "js s = map (\<lambda>c. of_nat (of_char c)) s"

text \<open>
  \<open>String.prototype.trim\<close> removes white space and line terminators from both ends:
  TAB, LF, VT, FF, CR, SP, NBSP, U+1680, U+2000 to U+200A, U+2028, U+2029, U+202F,
  U+205F, U+3000 and U+FEFF. All of them are single code units.
\<close>

definition isWhiteSpace :: "16 word \<Rightarrow> bool" where
  "isWhiteSpace c \<longleftrightarrow>
     c = 0x09 \<or> c = 0x0A \<or> c = 0x0B \<or> c = 0x0C \<or> c = 0x0D \<or> c = 0x20 \<or>
     c = 0xA0 \<or> c = 0x1680 \<or> (0x2000 \<le> c \<and> c \<le> 0x200A) \<or>
     c = 0x2028 \<or> c = 0x2029 \<or> c = 0x202F \<or> c = 0x205F \<or> c = 0x3000 \<or> c = 0xFEFF"

definition trim :: "jsstring \<Rightarrow> jsstring" where
  "trim s = rev (dropWhile isWhiteSpace (rev (dropWhile isWhiteSpace s)))"

text \<open>A string is falsy exactly when it is empty: \<open>!s\<close> is \<open>falsy s\<close>.\<close>

definition falsy :: "jsstring \<Rightarrow> bool" where
  "falsy s \<longleftrightarrow> s = []"


section \<open>Data model (src/types/portfolio.ts, src/context/portfolioStore.ts)\<close>

record ProfileData =
  profile_name :: jsstring
  profile_title :: jsstring
  profile_description :: jsstring

record PortfolioItem =
  item_id :: int
  item_position :: jsstring
  item_company :: jsstring
  item_startDate :: jsstring
  item_endDate :: jsstring
  item_description :: jsstring

text \<open>The two image fields, \<open>"background" | "profile"\<close>; an object with these two keys
  is a function on \<open>slot\<close>, and \<open>{...prev, [id]: v}\<close> is \<open>prev(id := v)\<close>.\<close>

datatype slot = Background | Profile

datatype ImageStatus = Initial | New | Removed

text \<open>What the code reads of a \<open>File\<close>: its size in bytes and its MIME type; the name
  stands for the content.\<close>

record File =
  file_name :: jsstring
  file_size :: nat
  file_type :: jsstring

text \<open>The persisted state of the store: \<open>store.profile\<close>, \<open>store.portfolios\<close>,
  \<open>store.images\<close>; an image is \<open>string | null\<close>.\<close>

record PortfolioState =
  store_profile :: ProfileData
  store_portfolios :: "PortfolioItem list"
  store_images :: "slot \<Rightarrow> jsstring option"

text \<open>
  The keys of \<open>FormErrors\<close>. The source builds them as strings, \<open>profile_name\<close> or
  \<open>item_position_${item.id}\<close>; one constructor stands for each template, with the id as
  its argument. The object itself is an association list with distinct keys, so that
  \<open>Object.keys(e).length\<close> is its length.
\<close>

datatype error_key =
    K_profile_name | K_profile_title | K_profile_description
  | K_item_position int | K_item_company int | K_item_startDate int
  | K_item_endDate int | K_item_description int

type_synonym FormErrors = "(error_key \<times> string) list"

text \<open>The state of one \<open>FileUploadBox\<close>: the preview URL and the error notification.\<close>

record FileUploadBox =
  previewUrl :: "jsstring option"
  error_show :: bool
  error_message :: string

text \<open>The state of the edit page: every \<open>useState\<close> of \<open>EditPortfolioPage\<close> that the
  handlers below read or write, and the state of its two upload boxes.\<close>

record EditPortfolioPage =
  profile :: ProfileData
  portfolioItems :: "PortfolioItem list"
  files :: "slot \<Rightarrow> File option"
  imageStatus :: "slot \<Rightarrow> ImageStatus"
  errors :: FormErrors
  isFormValid :: bool
  notification_show :: bool
  notification_message :: string
  isSaving :: bool
  uploadBox :: "slot \<Rightarrow> FileUploadBox"


section \<open>Validation (validateForm)\<close>

text \<open>The body of the \<open>forEach\<close> callback: the five checks of one item, in order.\<close>

definition item_errors :: "PortfolioItem \<Rightarrow> FormErrors \<Rightarrow> FormErrors" where
  "item_errors item e0 =
    (let e1 = (if falsy (trim (item_position item))
               then AList.update (K_item_position (item_id item)) ''Position is required.'' e0
               else e0);
         e2 = (if falsy (trim (item_company item))
               then AList.update (K_item_company (item_id item)) ''Company is required.'' e1
               else e1);
         e3 = (if falsy (item_startDate item)
               then AList.update (K_item_startDate (item_id item)) ''Start date is required.'' e2
               else e2);
         e4 = (if falsy (item_endDate item)
               then AList.update (K_item_endDate (item_id item)) ''End date is required.'' e3
               else e3);
         e5 = (if falsy (trim (item_description item))
               then AList.update (K_item_description (item_id item)) ''Description is required.'' e4
               else e4)
     in e5)"

definition profile_errors :: "ProfileData \<Rightarrow> FormErrors" where
  "profile_errors p =
    (let n1 = (if falsy (trim (profile_name p))
               then AList.update K_profile_name ''Name is required.'' []
               else []);
         n2 = (if falsy (trim (profile_title p))
               then AList.update K_profile_title ''Title is required.'' n1
               else n1);
         n3 = (if falsy (trim (profile_description p))
               then AList.update K_profile_description ''Description is required.'' n2
               else n2)
     in n3)"

definition validateForm :: "EditPortfolioPage \<Rightarrow> EditPortfolioPage" where
  "validateForm s =
    (let newErrors = fold item_errors (portfolioItems s) (profile_errors (profile s));
         backgroundIsValid = (imageStatus s Background \<noteq> Removed);
         profileIsValid = (imageStatus s Profile \<noteq> Removed);
         filesValid = (backgroundIsValid \<and> profileIsValid);
         fieldsValid = (length newErrors = 0)
     in s\<lparr>errors := newErrors, isFormValid := (filesValid \<and> fieldsValid)\<rparr>)"


text \<open>Non-blank after trimming: \<open>s.trim()\<close> is truthy.\<close>

definition nonBlank :: "jsstring \<Rightarrow> bool" where
  "nonBlank s \<longleftrightarrow> trim s \<noteq> []"

text \<open>The five checks of one item all pass: no error is recorded for it.\<close>

definition item_ok :: "PortfolioItem \<Rightarrow> bool" where
  "item_ok item \<longleftrightarrow> nonBlank (item_position item) \<and> nonBlank (item_company item) \<and>
     item_startDate item \<noteq> [] \<and> item_endDate item \<noteq> [] \<and> nonBlank (item_description item)"

text \<open>
  Validity as the specification words it, for comparison with \<open>validateForm\<close>: every
  profile field and every one of the five fields of every entry is non-blank, where
  blank means empty after trimming, and no slot is \<open>removed\<close>.
\<close>

definition spec_isValid :: "EditPortfolioPage \<Rightarrow> bool" where
  "spec_isValid s \<longleftrightarrow>
     nonBlank (profile_name (profile s)) \<and> nonBlank (profile_title (profile s)) \<and>
     nonBlank (profile_description (profile s)) \<and>
     list_all (\<lambda>item. nonBlank (item_position item) \<and> nonBlank (item_company item) \<and>
                      nonBlank (item_startDate item) \<and> nonBlank (item_endDate item) \<and>
                      nonBlank (item_description item)) (portfolioItems s) \<and>
     imageStatus s Background \<noteq> Removed \<and> imageStatus s Profile \<noteq> Removed"

text \<open>The same with blank read as empty, without trimming, for the five entry fields.\<close>

definition spec_isValid_untrimmed :: "EditPortfolioPage \<Rightarrow> bool" where
  "spec_isValid_untrimmed s \<longleftrightarrow>
     nonBlank (profile_name (profile s)) \<and> nonBlank (profile_title (profile s)) \<and>
     nonBlank (profile_description (profile s)) \<and>
     list_all (\<lambda>item. item_position item \<noteq> [] \<and> item_company item \<noteq> [] \<and>
                      item_startDate item \<noteq> [] \<and> item_endDate item \<noteq> [] \<and>
                      item_description item \<noteq> []) (portfolioItems s) \<and>
     imageStatus s Background \<noteq> Removed \<and> imageStatus s Profile \<noteq> Removed"


section \<open>Handlers of the edit page\<close>

text \<open>What a handler shows to the user besides the state it sets.\<close>

datatype effect = Alert string | ConsoleError string

text \<open>The object literal \<open>{ background: b, profile: p }\<close>.\<close>

definition slots :: "'a \<Rightarrow> 'a \<Rightarrow> slot \<Rightarrow> 'a" where
  "slots b p sid = (case sid of Background \<Rightarrow> b | Profile \<Rightarrow> p)"

text \<open>\<open>file ? "new" : "removed"\<close>: a \<open>File\<close> object is truthy, \<open>null\<close> is not.\<close>

definition handleFileChange :: "slot \<Rightarrow> File option \<Rightarrow> EditPortfolioPage \<Rightarrow> EditPortfolioPage" where
  "handleFileChange sid file s =
     s\<lparr>files := (files s)(sid := file),
       imageStatus := (imageStatus s)(sid := (if file \<noteq> None then New else Removed))\<rparr>"

text \<open>The \<open>name\<close> attributes of the form fields (ProfileForm, PortfolioItemForm).\<close>

datatype profile_field = P_name | P_title | P_description

datatype item_field = I_position | I_company | I_startDate | I_endDate | I_description

fun set_profile_field :: "profile_field \<Rightarrow> jsstring \<Rightarrow> ProfileData \<Rightarrow> ProfileData" where
  "set_profile_field P_name v p = p\<lparr>profile_name := v\<rparr>"
| "set_profile_field P_title v p = p\<lparr>profile_title := v\<rparr>"
| "set_profile_field P_description v p = p\<lparr>profile_description := v\<rparr>"

fun set_item_field :: "item_field \<Rightarrow> jsstring \<Rightarrow> PortfolioItem \<Rightarrow> PortfolioItem" where
  "set_item_field I_position v item = item\<lparr>item_position := v\<rparr>"
| "set_item_field I_company v item = item\<lparr>item_company := v\<rparr>"
| "set_item_field I_startDate v item = item\<lparr>item_startDate := v\<rparr>"
| "set_item_field I_endDate v item = item\<lparr>item_endDate := v\<rparr>"
| "set_item_field I_description v item = item\<lparr>item_description := v\<rparr>"

fun get_item_field :: "item_field \<Rightarrow> PortfolioItem \<Rightarrow> jsstring" where
  "get_item_field I_position item = item_position item"
| "get_item_field I_company item = item_company item"
| "get_item_field I_startDate item = item_startDate item"
| "get_item_field I_endDate item = item_endDate item"
| "get_item_field I_description item = item_description item"

definition handleProfileChange :: "profile_field \<Rightarrow> jsstring \<Rightarrow> EditPortfolioPage \<Rightarrow> EditPortfolioPage" where
  "handleProfileChange name v s = s\<lparr>profile := set_profile_field name v (profile s)\<rparr>"

definition handlePortfolioChange ::
  "int \<Rightarrow> item_field \<Rightarrow> jsstring \<Rightarrow> EditPortfolioPage \<Rightarrow> EditPortfolioPage" where
  "handlePortfolioChange eid name v s =
     s\<lparr>portfolioItems :=
         map (\<lambda>item. if item_id item = eid then set_item_field name v item else item)
             (portfolioItems s)\<rparr>"

text \<open>\<open>now\<close> is the value of \<open>Date.now()\<close> at the call.\<close>

definition addPortfolioItem :: "int \<Rightarrow> EditPortfolioPage \<Rightarrow> EditPortfolioPage \<times> effect list" where
  "addPortfolioItem now s =
     (if length (portfolioItems s) \<ge> 10
      then (s, [Alert ''Maximum 10 portfolio entries allowed''])
      else (s\<lparr>portfolioItems := portfolioItems s @
                [\<lparr>item_id = now, item_position = [], item_company = [], item_startDate = [],
                  item_endDate = [], item_description = []\<rparr>]\<rparr>, []))"

definition removePortfolioItem :: "int \<Rightarrow> EditPortfolioPage \<Rightarrow> EditPortfolioPage" where
  "removePortfolioItem eid s =
     s\<lparr>portfolioItems := filter (\<lambda>item. item_id item \<noteq> eid) (portfolioItems s)\<rparr>"


section \<open>The upload box (FileUploadBox)\<close>

text \<open>\<open>triggerError\<close> shows the message; a timer hides it again after three seconds,
  which is outside this model.\<close>

definition triggerError :: "string \<Rightarrow> FileUploadBox \<Rightarrow> FileUploadBox" where
  "triggerError message b = b\<lparr>error_show := True, error_message := message\<rparr>"

definition allowedTypes :: "jsstring list" where
  "allowedTypes = [js ''image/png'', js ''image/jpeg'', js ''image/jpg'']"

text \<open>\<open>handleFile\<close> of the box of slot \<open>sid\<close>, whose \<open>onFileChange\<close> is the page's
  \<open>handleFileChange\<close>; \<open>createObjectURL\<close> is the browser's \<open>URL.createObjectURL\<close>.\<close>

definition handleFile ::
  "(File \<Rightarrow> jsstring) \<Rightarrow> slot \<Rightarrow> File \<Rightarrow> EditPortfolioPage \<Rightarrow> EditPortfolioPage" where
  "handleFile createObjectURL sid selectedFile s =
     (if file_size selectedFile > 3 * 1024 * 1024
      then s\<lparr>uploadBox := (uploadBox s)
               (sid := triggerError ''File size must be less than 3MB.'' (uploadBox s sid))\<rparr>
      else if file_type selectedFile \<notin> set allowedTypes
      then s\<lparr>uploadBox := (uploadBox s)
               (sid := triggerError ''Invalid file type. Please use PNG, JPG, or JPEG.''
                         (uploadBox s sid))\<rparr>
      else handleFileChange sid (Some selectedFile)
             (s\<lparr>uploadBox := (uploadBox s)
                 (sid := (uploadBox s sid)\<lparr>previewUrl := Some (createObjectURL selectedFile)\<rparr>)\<rparr>))"

definition removeImage :: "slot \<Rightarrow> EditPortfolioPage \<Rightarrow> EditPortfolioPage" where
  "removeImage sid s =
     handleFileChange sid None
       (s\<lparr>uploadBox := (uploadBox s)(sid := (uploadBox s sid)\<lparr>previewUrl := None\<rparr>)\<rparr>)"

text \<open>The specification's \<open>setImage(slot, fileOrNull)\<close>: the box's \<open>handleFile\<close> for a
  file, its \<open>removeImage\<close> for \<open>null\<close>.\<close>

definition setImage ::
  "(File \<Rightarrow> jsstring) \<Rightarrow> slot \<Rightarrow> File option \<Rightarrow> EditPortfolioPage \<Rightarrow> EditPortfolioPage" where
  "setImage createObjectURL sid fileOrNull s =
     (case fileOrNull of
        Some file \<Rightarrow> handleFile createObjectURL sid file s
      | None \<Rightarrow> removeImage sid s)"

text \<open>A file that passes both checks of \<open>handleFile\<close>.\<close>

definition accepted :: "File \<Rightarrow> bool" where
  "accepted file \<longleftrightarrow> \<not> file_size file > 3 * 1024 * 1024 \<and> file_type file \<in> set allowedTypes"


section \<open>The store (usePortfolioStore)\<close>

definition placeholderData :: PortfolioState where
  "placeholderData =
     \<lparr>store_profile =
        \<lparr>profile_name = js ''John Doe'',
         profile_title = js ''Senior Frontend Developer'',
         profile_description = js (''This is placeholder data. Edit the portfolio to add your own professional summary here. '' @
           ''Talk about your passion for creating beautiful, user-friendly web applications.'')\<rparr>,
      store_portfolios =
        [\<lparr>item_id = 1,
          item_position = js ''Example Position'',
          item_company = js ''Tech Company'',
          item_startDate = js ''2023-01'',
          item_endDate = js ''2025-01'',
          item_description = js (''This is a sample portfolio entry. Describe your responsibilities, '' @
            ''achievements, and the technologies you used.'')\<rparr>],
      store_images = slots None None\<rparr>"

text \<open>
  The store starts from \<open>placeholderData\<close>; the \<open>persist\<close> middleware overwrites it with
  the state found in local storage, when there is one.
\<close>

definition usePortfolioStore :: "PortfolioState option \<Rightarrow> PortfolioState" where
  "usePortfolioStore persisted = (case persisted of None \<Rightarrow> placeholderData | Some st \<Rightarrow> st)"

text \<open>\<open>Partial<PortfolioState>\<close>, and \<open>set((state) => ({ ...state, ...data }))\<close>.\<close>

record PartialState =
  data_profile :: "ProfileData option"
  data_portfolios :: "PortfolioItem list option"
  data_images :: "(slot \<Rightarrow> jsstring option) option"

definition setPortfolioData :: "PartialState \<Rightarrow> PortfolioState \<Rightarrow> PortfolioState" where
  "setPortfolioData d state =
     state\<lparr>store_profile := (case data_profile d of Some p \<Rightarrow> p | None \<Rightarrow> store_profile state),
           store_portfolios :=
             (case data_portfolios d of Some ps \<Rightarrow> ps | None \<Rightarrow> store_portfolios state),
           store_images := (case data_images d of Some im \<Rightarrow> im | None \<Rightarrow> store_images state)\<rparr>"


section \<open>Opening the edit page\<close>

text \<open>Truthiness of a \<open>string | null\<close>: \<open>null\<close> and the empty string are falsy.\<close>

definition truthy :: "jsstring option \<Rightarrow> bool" where
  "truthy v = (case v of None \<Rightarrow> False | Some str \<Rightarrow> \<not> falsy str)"

text \<open>The initial values of the \<open>useState\<close> calls; a box starts with
  \<open>initialImageUrl || null\<close> and no error.\<close>

definition initialBox :: "jsstring option \<Rightarrow> FileUploadBox" where
  "initialBox initialImageUrl =
     \<lparr>previewUrl = (if truthy initialImageUrl then initialImageUrl else None),
      error_show = False, error_message = []\<rparr>"

definition initialPage :: "PortfolioState \<Rightarrow> EditPortfolioPage" where
  "initialPage store =
     \<lparr>profile = store_profile store,
      portfolioItems = store_portfolios store,
      files = slots None None,
      imageStatus = slots (if truthy (store_images store Background) then Initial else Removed)
                          (if truthy (store_images store Profile) then Initial else Removed),
      errors = [],
      isFormValid = False,
      notification_show = False,
      notification_message = [],
      isSaving = False,
      uploadBox = slots (initialBox (store_images store Background))
                        (initialBox (store_images store Profile))\<rparr>"

text \<open>Mounting the page runs the effect once: the draft as the user first sees it.\<close>

definition openDraft :: "PortfolioState \<Rightarrow> EditPortfolioPage" where
  "openDraft store = validateForm (initialPage store)"


section \<open>Saving (saveChanges)\<close>

text \<open>
  An awaited promise either resolves (\<open>Inr\<close>) or rejects (\<open>Inl\<close>); \<open>await p k\<close> continues
  with the value, or leaves the \<open>try\<close> block with the reason.
\<close>

type_synonym 'a promise = "string + 'a"

definition await :: "'a promise \<Rightarrow> ('a \<Rightarrow> 'b promise) \<Rightarrow> 'b promise" where
  "await p k = (case p of Inl reason \<Rightarrow> Inl reason | Inr v \<Rightarrow> k v)"

text \<open>
  The \<open>try\<close> block up to the argument of \<open>store.setPortfolioData\<close>. The two external
  functions are parameters: \<open>imageCompression\<close> (with the fixed options) and
  \<open>fileToDataUrl\<close>.
\<close>

definition save_try ::
  "(File \<Rightarrow> File promise) \<Rightarrow> (File \<Rightarrow> jsstring promise) \<Rightarrow>
   PortfolioState \<Rightarrow> EditPortfolioPage \<Rightarrow> PartialState promise" where
  "save_try imageCompression fileToDataUrl store s =
     await (case files s Background of
              Some f \<Rightarrow> await (imageCompression f) (\<lambda>c. Inr (Some c))
            | None \<Rightarrow> Inr None) (\<lambda>compressedBackgroundFile.
     await (case files s Profile of
              Some f \<Rightarrow> await (imageCompression f) (\<lambda>c. Inr (Some c))
            | None \<Rightarrow> Inr None) (\<lambda>compressedProfileFile.
     await (case compressedBackgroundFile of
              Some c \<Rightarrow> await (fileToDataUrl c) (\<lambda>u. Inr (Some u))
            | None \<Rightarrow> Inr (if imageStatus s Background = Initial
                            then store_images store Background else None)) (\<lambda>backgroundToSave.
     await (case compressedProfileFile of
              Some c \<Rightarrow> await (fileToDataUrl c) (\<lambda>u. Inr (Some u))
            | None \<Rightarrow> Inr (if imageStatus s Profile = Initial
                            then store_images store Profile else None)) (\<lambda>profileToSave.
     Inr \<lparr>data_profile = Some (profile s),
          data_portfolios = Some (portfolioItems s),
          data_images = Some (slots backgroundToSave profileToSave)\<rparr>))))"

text \<open>
  A step of the pipeline fails for the pending file of a slot: its compression rejects,
  or the encoding of the compressed file does.
\<close>

definition encode_fails ::
  "(File \<Rightarrow> File promise) \<Rightarrow> (File \<Rightarrow> jsstring promise) \<Rightarrow> File option \<Rightarrow> bool" where
  "encode_fails imageCompression fileToDataUrl fo =
     (case fo of
        None \<Rightarrow> False
      | Some f \<Rightarrow>
          (case imageCompression f of
             Inl reason \<Rightarrow> True
           | Inr c \<Rightarrow> (case fileToDataUrl c of Inl reason \<Rightarrow> True | Inr u \<Rightarrow> False)))"

text \<open>
  The image that the \<open>try\<close> block resolves for a slot when no step fails: the encoding
  of the compressed pending file; with no pending file, the stored image of an
  \<open>initial\<close> slot, and \<open>null\<close> otherwise. \<open>merged_record\<close> is the record made of the
  profile and the entries of the draft and the two resolved images.
\<close>

definition image_to_save ::
  "(File \<Rightarrow> File promise) \<Rightarrow> (File \<Rightarrow> jsstring promise) \<Rightarrow>
   PortfolioState \<Rightarrow> EditPortfolioPage \<Rightarrow> slot \<Rightarrow> jsstring option" where
  "image_to_save imageCompression fileToDataUrl store s sid =
     (case files s sid of
        Some f \<Rightarrow>
          (case imageCompression f of
             Inl reason \<Rightarrow> None
           | Inr c \<Rightarrow> (case fileToDataUrl c of Inl reason \<Rightarrow> None | Inr u \<Rightarrow> Some u))
      | None \<Rightarrow> (if imageStatus s sid = Initial then store_images store sid else None))"

definition merged_record ::
  "(File \<Rightarrow> File promise) \<Rightarrow> (File \<Rightarrow> jsstring promise) \<Rightarrow>
   PortfolioState \<Rightarrow> EditPortfolioPage \<Rightarrow> PortfolioState" where
  "merged_record imageCompression fileToDataUrl store s =
     \<lparr>store_profile = profile s,
      store_portfolios = portfolioItems s,
      store_images = slots (image_to_save imageCompression fileToDataUrl store s Background)
                           (image_to_save imageCompression fileToDataUrl store s Profile)\<rparr>"

text \<open>
  \<open>saveChanges\<close> on the store and the page. \<open>store.setPortfolioData\<close> is the last
  statement of the \<open>try\<close> block: it replaces the state of the store in memory, and the
  \<open>persist\<close> middleware then writes the whole new state to local storage under the one
  key. That write is the parameter \<open>setItem\<close>; it can throw (the quota is exceeded), and
  then the state in memory is already replaced, nothing is stored, and the exception
  reaches the \<open>catch\<close> block like a rejected image step.

  The result is the state of the store in memory, the record written to local storage
  by this call (\<open>None\<close> when nothing is written), the new page, and what the user is
  shown. The timers that hide the notification and leave the page are outside this
  model, and so is the preview that the upload boxes load again once the store has
  changed.
\<close>

definition saveChanges ::
  "(File \<Rightarrow> File promise) \<Rightarrow> (File \<Rightarrow> jsstring promise) \<Rightarrow>
   (PortfolioState \<Rightarrow> unit promise) \<Rightarrow> PortfolioState \<Rightarrow> EditPortfolioPage \<Rightarrow>
   PortfolioState \<times> PortfolioState option \<times> EditPortfolioPage \<times> effect list" where
  "saveChanges imageCompression fileToDataUrl setItem store s =
     (if \<not> isFormValid s
      then (store, None, s,
            [Alert ''Please complete all required fields and upload both images.''])
      else
        (let s1 = s\<lparr>isSaving := True\<rparr> in
         case save_try imageCompression fileToDataUrl store s1 of
           Inr d \<Rightarrow>
             (let store' = setPortfolioData d store in
              case setItem store' of
                Inr u \<Rightarrow>
                  (store', Some store',
                   s1\<lparr>notification_show := True, notification_message := ''Portfolio Saved!'',
                      isSaving := False\<rparr>,
                   [])
              | Inl reason \<Rightarrow>
                  (store', None,
                   s1\<lparr>isSaving := False\<rparr>,
                   [ConsoleError ''Failed to save changes:'',
                    Alert ''Could not save changes. Please try again.'']))
         | Inl reason \<Rightarrow>
             (store, None,
              s1\<lparr>isSaving := False\<rparr>,
              [ConsoleError ''Failed to save changes:'',
               Alert ''Could not save changes. Please try again.''])))"


section \<open>Sequences of edits\<close>

text \<open>
  The mutations of the draft. After each one the page renders again and the effect runs
  \<open>validateForm\<close>, so a step is the handler followed by \<open>validateForm\<close>.
\<close>

datatype action =
    SetProfileField profile_field jsstring
  | SetEntryField int item_field jsstring
  | AddEntry int
  | RemoveEntry int
  | SetImage slot "File option"

definition step :: "(File \<Rightarrow> jsstring) \<Rightarrow> action \<Rightarrow> EditPortfolioPage \<Rightarrow> EditPortfolioPage" where
  "step createObjectURL a s =
     validateForm
       (case a of
          SetProfileField name v \<Rightarrow> handleProfileChange name v s
        | SetEntryField eid name v \<Rightarrow> handlePortfolioChange eid name v s
        | AddEntry now \<Rightarrow> fst (addPortfolioItem now s)
        | RemoveEntry eid \<Rightarrow> removePortfolioItem eid s
        | SetImage sid fileOrNull \<Rightarrow> setImage createObjectURL sid fileOrNull s)"

definition run :: "(File \<Rightarrow> jsstring) \<Rightarrow> action list \<Rightarrow> EditPortfolioPage \<Rightarrow> EditPortfolioPage" where
  "run createObjectURL as s = fold (step createObjectURL) as s"

text \<open>An action that supplies a new file for slot \<open>sid\<close>: an accepted upload into it.\<close>

definition supplies :: "slot \<Rightarrow> action \<Rightarrow> bool" where
  "supplies sid a =
     (case a of SetImage sid' (Some file) \<Rightarrow> sid' = sid \<and> accepted file | _ \<Rightarrow> False)"

section \<open>Example inputs\<close>

text \<open>A store as a save leaves it: the placeholder texts with two encoded images.\<close>

definition saved_store :: PortfolioState where
  "saved_store = placeholderData\<lparr>store_images :=
      slots (Some (js ''data:image/png;base64,AAAA'')) (Some (js ''data:image/jpeg;base64,BBBB''))\<rparr>"

text \<open>The draft of that store after the start date of its entry is set to one space,
  and after its position is set to one space.\<close>

definition draft_blank_date :: EditPortfolioPage where
  "draft_blank_date = handlePortfolioChange 1 I_startDate (js '' '') (openDraft saved_store)"

definition draft_blank_position :: EditPortfolioPage where
  "draft_blank_position = handlePortfolioChange 1 I_position (js '' '') (openDraft saved_store)"

text \<open>External functions: a compression that halves the size, one that rejects, an
  encoder, and a blob URL maker.\<close>

definition compress_ok :: "File \<Rightarrow> File promise" where
  "compress_ok f = Inr (f\<lparr>file_size := file_size f div 2\<rparr>)"

definition compress_fail :: "File \<Rightarrow> File promise" where
  "compress_fail f = Inl ''compression failed''"

definition dataUrl_ok :: "File \<Rightarrow> jsstring promise" where
  "dataUrl_ok f = Inr (js ''data:'' @ file_type f @ js '';base64,'' @ file_name f)"

text \<open>A write to local storage that succeeds, and one that exceeds the quota.\<close>

definition setItem_ok :: "PortfolioState \<Rightarrow> unit promise" where
  "setItem_ok r = Inr ()"

definition setItem_quota :: "PortfolioState \<Rightarrow> unit promise" where
  "setItem_quota r = Inl ''QuotaExceededError''"

definition blobUrl :: "File \<Rightarrow> jsstring" where
  "blobUrl f = js ''blob:'' @ file_name f"

text \<open>Files: a PNG of 200 KiB, a PNG one byte over 3 MiB, and a small GIF.\<close>

definition png_file :: File where
  "png_file = \<lparr>file_name = js ''me.png'', file_size = 204800, file_type = js ''image/png''\<rparr>"

definition big_file :: File where
  "big_file = \<lparr>file_name = js ''big.png'', file_size = 3 * 1024 * 1024 + 1, file_type = js ''image/png''\<rparr>"

definition gif_file :: File where
  "gif_file = \<lparr>file_name = js ''a.gif'', file_size = 1000, file_type = js ''image/gif''\<rparr>"

text \<open>The draft of a fresh install after nine entries were added, and the draft of
  \<open>saved_store\<close> after a new background image was chosen.\<close>

definition full_draft :: EditPortfolioPage where
  "full_draft = run blobUrl (map AddEntry [2, 3, 4, 5, 6, 7, 8, 9, 10]) (openDraft placeholderData)"

definition new_background_draft :: EditPortfolioPage where
  "new_background_draft = step blobUrl (SetImage Background (Some png_file)) (openDraft saved_store)"

text \<open>A draft with two entries, with ids 1 and 2.\<close>

definition two_entries :: "PortfolioItem list" where
  "two_entries =
     [\<lparr>item_id = 1, item_position = js ''Engineer'', item_company = js ''Initech'',
       item_startDate = js ''2019-03'', item_endDate = js ''2021-06'',
       item_description = js ''Backend services''\<rparr>,
      \<lparr>item_id = 2, item_position = js ''Lead'', item_company = js ''Globex'',
       item_startDate = js ''2021-07'', item_endDate = js ''2024-12'',
       item_description = js ''Team of five''\<rparr>]"

definition two_entry_draft :: EditPortfolioPage where
  "two_entry_draft = (openDraft saved_store)\<lparr>portfolioItems := two_entries\<rparr>"

text \<open>A store whose background image is the empty string.\<close>

definition empty_image_store :: PortfolioState where
  "empty_image_store = saved_store\<lparr>store_images := slots (Some []) (Some (js ''data:image/jpeg;base64,BBBB''))\<rparr>"

section \<open>Lemmas about the model\<close>

subsection \<open>Strings and error objects\<close>

lemma update_not_Nil: "AList.update k v al \<noteq> []"
  by (cases al) auto

lemma all_dropWhile: "(\<forall>x\<in>set (dropWhile P xs). P x) \<longleftrightarrow> (\<forall>x\<in>set xs. P x)"
  by (induction xs) auto

lemma trim_Nil_iff: "trim s = [] \<longleftrightarrow> (\<forall>c\<in>set s. isWhiteSpace c)"
  by (simp add: trim_def dropWhile_eq_Nil_conv all_dropWhile)

lemma nonBlank_Cons: "\<not> isWhiteSpace c \<Longrightarrow> nonBlank (c # cs)"
  by (auto simp: nonBlank_def trim_Nil_iff)

lemma nonBlank_js: "\<not> isWhiteSpace (of_nat (of_char c)) \<Longrightarrow> nonBlank (js (c # cs))"
  by (simp add: js_def nonBlank_Cons)

lemma nonBlank_js_append:
  "\<not> isWhiteSpace (of_nat (of_char c)) \<Longrightarrow> nonBlank (js ((c # cs) @ ds))"
  by (simp add: js_def nonBlank_Cons)

lemma js_not_Nil: "js (c # cs) \<noteq> []"
  by (simp add: js_def)

lemma blank_space: "\<not> nonBlank (js '' '')"
  by (simp add: nonBlank_def trim_Nil_iff js_def isWhiteSpace_def)

lemma truthy_js [simp]: "truthy (Some (js (c # cs)))" "\<not> truthy None" "\<not> truthy (Some [])"
  by (simp_all add: truthy_def falsy_def js_def)

lemma slots_eta: "slots (f Background) (f Profile) = f"
  by (rule ext) (simp add: slots_def split: slot.split)


subsection \<open>Validation\<close>

lemma item_errors_Nil_iff: "item_errors item e = [] \<longleftrightarrow> e = [] \<and> item_ok item"
  by (auto simp: item_errors_def item_ok_def nonBlank_def falsy_def Let_def update_not_Nil)

lemma fold_item_errors_Nil_iff:
  "fold item_errors items e = [] \<longleftrightarrow> e = [] \<and> (\<forall>item\<in>set items. item_ok item)"
  by (induction items arbitrary: e) (auto simp: item_errors_Nil_iff)

lemma profile_errors_Nil_iff:
  "profile_errors p = [] \<longleftrightarrow>
     nonBlank (profile_name p) \<and> nonBlank (profile_title p) \<and> nonBlank (profile_description p)"
  by (auto simp: profile_errors_def nonBlank_def falsy_def Let_def update_not_Nil)

lemma isFormValid_validateForm:
  "isFormValid (validateForm s) \<longleftrightarrow>
     (nonBlank (profile_name (profile s)) \<and> nonBlank (profile_title (profile s)) \<and>
      nonBlank (profile_description (profile s))) \<and>
     (\<forall>item\<in>set (portfolioItems s). item_ok item) \<and>
     imageStatus s Background \<noteq> Removed \<and> imageStatus s Profile \<noteq> Removed"
  by (auto simp: validateForm_def Let_def fold_item_errors_Nil_iff profile_errors_Nil_iff)

lemma validateForm_sel [simp]:
  "profile (validateForm s) = profile s"
  "portfolioItems (validateForm s) = portfolioItems s"
  "files (validateForm s) = files s"
  "imageStatus (validateForm s) = imageStatus s"
  "uploadBox (validateForm s) = uploadBox s"
  "isSaving (validateForm s) = isSaving s"
  "notification_show (validateForm s) = notification_show s"
  "notification_message (validateForm s) = notification_message s"
  by (simp_all add: validateForm_def Let_def)

text \<open>Running the effect again changes nothing: validity is a function of the draft.\<close>

lemma validateForm_idem: "validateForm (validateForm s) = validateForm s"
  by (simp add: validateForm_def Let_def)

lemma invalid_if_Removed: "imageStatus s sid = Removed \<Longrightarrow> \<not> isFormValid (validateForm s)"
  by (cases sid) (auto simp: isFormValid_validateForm)


subsection \<open>Opening the page\<close>

lemma initialPage_sel [simp]:
  "profile (initialPage st) = store_profile st"
  "portfolioItems (initialPage st) = store_portfolios st"
  "files (initialPage st) sid = None"
  "imageStatus (initialPage st) sid = (if truthy (store_images st sid) then Initial else Removed)"
  "isSaving (initialPage st) = False"
  by (simp_all add: initialPage_def slots_def split: slot.split)

lemma openDraft_sel [simp]:
  "profile (openDraft st) = store_profile st"
  "portfolioItems (openDraft st) = store_portfolios st"
  "files (openDraft st) sid = None"
  "imageStatus (openDraft st) sid = (if truthy (store_images st sid) then Initial else Removed)"
  "isSaving (openDraft st) = False"
  by (simp_all add: openDraft_def)

lemma saved_store_sel [simp]:
  "store_profile saved_store = store_profile placeholderData"
  "store_portfolios saved_store = store_portfolios placeholderData"
  "store_images saved_store Background = Some (js ''data:image/png;base64,AAAA'')"
  "store_images saved_store Profile = Some (js ''data:image/jpeg;base64,BBBB'')"
  by (simp_all add: saved_store_def slots_def)

lemma placeholder_images [simp]: "store_images placeholderData sid = None"
  by (simp add: placeholderData_def slots_def split: slot.split)

lemma placeholder_profile_ok:
  "nonBlank (profile_name (store_profile placeholderData))"
  "nonBlank (profile_title (store_profile placeholderData))"
  "nonBlank (profile_description (store_profile placeholderData))"
  by (simp_all add: placeholderData_def nonBlank_js nonBlank_js_append isWhiteSpace_def)

lemma placeholder_portfolios:
  "store_portfolios placeholderData =
     [\<lparr>item_id = 1, item_position = js ''Example Position'', item_company = js ''Tech Company'',
       item_startDate = js ''2023-01'', item_endDate = js ''2025-01'',
       item_description = js (''This is a sample portfolio entry. Describe your responsibilities, '' @
            ''achievements, and the technologies you used.'')\<rparr>]"
  by (simp add: placeholderData_def)

lemma placeholder_item_ok: "\<forall>item\<in>set (store_portfolios placeholderData). item_ok item"
  by (simp add: placeholder_portfolios item_ok_def nonBlank_js nonBlank_js_append js_not_Nil
        isWhiteSpace_def)

lemma openDraft_placeholder_invalid: "\<not> isFormValid (openDraft placeholderData)"
  unfolding openDraft_def isFormValid_validateForm by simp

lemma openDraft_saved_valid: "isFormValid (openDraft saved_store)"
  unfolding openDraft_def isFormValid_validateForm
  using placeholder_profile_ok placeholder_item_ok by simp


subsection \<open>Images\<close>

lemma handleFileChange_sel [simp]:
  "imageStatus (handleFileChange sid f s) =
     (imageStatus s)(sid := (if f \<noteq> None then New else Removed))"
  "files (handleFileChange sid f s) = (files s)(sid := f)"
  "portfolioItems (handleFileChange sid f s) = portfolioItems s"
  "profile (handleFileChange sid f s) = profile s"
  "uploadBox (handleFileChange sid f s) = uploadBox s"
  by (simp_all add: handleFileChange_def)

lemma setImage_Some_accepted:
  "accepted file \<Longrightarrow>
   setImage url sid (Some file) s =
     handleFileChange sid (Some file)
       (s\<lparr>uploadBox := (uploadBox s)(sid := (uploadBox s sid)\<lparr>previewUrl := Some (url file)\<rparr>)\<rparr>)"
  by (simp add: setImage_def handleFile_def accepted_def)

lemma setImage_Some_rejected:
  "\<not> accepted file \<Longrightarrow>
   setImage url sid (Some file) s =
     s\<lparr>uploadBox := (uploadBox s)(sid := triggerError
          (if file_size file > 3 * 1024 * 1024 then ''File size must be less than 3MB.''
           else ''Invalid file type. Please use PNG, JPG, or JPEG.'') (uploadBox s sid))\<rparr>"
  by (auto simp: setImage_def handleFile_def accepted_def)

lemma setImage_None:
  "setImage url sid None s =
     handleFileChange sid None
       (s\<lparr>uploadBox := (uploadBox s)(sid := (uploadBox s sid)\<lparr>previewUrl := None\<rparr>)\<rparr>)"
  by (simp add: setImage_def removeImage_def)

lemma setImage_status:
  "imageStatus (setImage url sid fo s) =
     (case fo of
        None \<Rightarrow> (imageStatus s)(sid := Removed)
      | Some file \<Rightarrow> if accepted file then (imageStatus s)(sid := New) else imageStatus s)"
  by (cases fo) (simp_all add: setImage_None setImage_Some_accepted setImage_Some_rejected)

lemma setImage_files:
  "files (setImage url sid fo s) =
     (case fo of
        None \<Rightarrow> (files s)(sid := None)
      | Some file \<Rightarrow> if accepted file then (files s)(sid := Some file) else files s)"
  by (cases fo) (simp_all add: setImage_None setImage_Some_accepted setImage_Some_rejected)

lemma setImage_items [simp]:
  "portfolioItems (setImage url sid fo s) = portfolioItems s"
  "profile (setImage url sid fo s) = profile s"
  by (cases fo; cases "accepted (the fo)";
      simp add: setImage_None setImage_Some_accepted setImage_Some_rejected)+

lemma accepted_png: "accepted png_file"
  by (simp add: accepted_def png_file_def allowedTypes_def js_def)


subsection \<open>Steps and runs\<close>

lemma step_status:
  "imageStatus (step url a s) =
     (case a of SetImage sid fo \<Rightarrow> imageStatus (setImage url sid fo s) | _ \<Rightarrow> imageStatus s)"
  by (cases a)
     (simp_all add: step_def handleProfileChange_def handlePortfolioChange_def
        addPortfolioItem_def removePortfolioItem_def)

lemma step_not_Initial:
  "imageStatus s sid \<noteq> Initial \<Longrightarrow> imageStatus (step url a s) sid \<noteq> Initial"
  by (cases a) (auto simp: step_status setImage_status split: option.splits)

lemma run_not_Initial:
  "imageStatus s sid \<noteq> Initial \<Longrightarrow> imageStatus (run url as s) sid \<noteq> Initial"
  unfolding run_def
  by (induction as arbitrary: s) (simp_all add: step_not_Initial)

lemma step_items:
  "portfolioItems (step url a s) =
     (case a of
        SetProfileField name v \<Rightarrow> portfolioItems s
      | SetEntryField eid name v \<Rightarrow>
          map (\<lambda>item. if item_id item = eid then set_item_field name v item else item)
            (portfolioItems s)
      | AddEntry now \<Rightarrow>
          (if length (portfolioItems s) \<ge> 10 then portfolioItems s
           else portfolioItems s @
             [\<lparr>item_id = now, item_position = [], item_company = [], item_startDate = [],
               item_endDate = [], item_description = []\<rparr>])
      | RemoveEntry eid \<Rightarrow> filter (\<lambda>item. item_id item \<noteq> eid) (portfolioItems s)
      | SetImage sid fo \<Rightarrow> portfolioItems s)"
  by (cases a)
     (simp_all add: step_def handleProfileChange_def handlePortfolioChange_def
        addPortfolioItem_def removePortfolioItem_def)

lemma step_length_le:
  assumes "length (portfolioItems s) \<le> 10"
  shows "length (portfolioItems (step url a s)) \<le> 10"
proof (cases a)
  case (RemoveEntry eid)
  have "length (filter (\<lambda>item. item_id item \<noteq> eid) (portfolioItems s)) \<le> 10"
    by (rule le_trans [OF length_filter_le assms])
  then show ?thesis
    by (simp add: RemoveEntry step_items)
qed (use assms in \<open>simp_all add: step_items\<close>)

lemma run_length_le:
  "length (portfolioItems s) \<le> 10 \<Longrightarrow> length (portfolioItems (run url as s)) \<le> 10"
  unfolding run_def
  by (induction as arbitrary: s) (simp_all add: step_length_le)

lemma full_draft_items:
  "portfolioItems full_draft =
     store_portfolios placeholderData @
     map (\<lambda>n. \<lparr>item_id = n, item_position = [], item_company = [], item_startDate = [],
               item_endDate = [], item_description = []\<rparr>) [2, 3, 4, 5, 6, 7, 8, 9, 10]"
  by (simp add: full_draft_def run_def step_items placeholder_portfolios)

lemma full_draft_length: "length (portfolioItems full_draft) = 10"
  by (simp add: full_draft_items placeholder_portfolios)


subsection \<open>Saving\<close>

lemma save_try_no_files:
  "files s Background = None \<Longrightarrow> files s Profile = None \<Longrightarrow>
   save_try ic f2d st s =
     Inr \<lparr>data_profile = Some (profile s), data_portfolios = Some (portfolioItems s),
          data_images = Some (slots
            (if imageStatus s Background = Initial then store_images st Background else None)
            (if imageStatus s Profile = Initial then store_images st Profile else None))\<rparr>"
  by (simp add: save_try_def await_def)

lemma setPortfolioData_same:
  "setPortfolioData \<lparr>data_profile = Some (store_profile st),
      data_portfolios = Some (store_portfolios st), data_images = Some (store_images st)\<rparr> st = st"
  by (simp add: setPortfolioData_def)

text \<open>The \<open>try\<close> block is left early exactly when a step fails for one of the files.\<close>

lemma save_try_Inl_iff:
  "(\<exists>reason. save_try ic f2d st s = Inl reason) \<longleftrightarrow>
     encode_fails ic f2d (files s Background) \<or> encode_fails ic f2d (files s Profile)"
  by (auto simp: save_try_def await_def encode_fails_def split: option.splits sum.splits)

lemma save_try_Inr_shape:
  "save_try ic f2d st s = Inr d \<Longrightarrow>
   \<exists>b p. d = \<lparr>data_profile = Some (profile s), data_portfolios = Some (portfolioItems s),
               data_images = Some (slots b p)\<rparr>"
  by (auto simp: save_try_def await_def split: option.splits sum.splits)

lemma image_to_save_isSaving [simp]:
  "image_to_save ic f2d st (s\<lparr>isSaving := b\<rparr>) sid = image_to_save ic f2d st s sid"
  by (simp add: image_to_save_def)

lemma merged_record_isSaving [simp]:
  "merged_record ic f2d st (s\<lparr>isSaving := b\<rparr>) = merged_record ic f2d st s"
  by (simp add: merged_record_def)

text \<open>When no step fails, the \<open>try\<close> block reaches the store with the merged record.\<close>

lemma save_try_ok:
  "\<not> encode_fails ic f2d (files s Background) \<Longrightarrow> \<not> encode_fails ic f2d (files s Profile) \<Longrightarrow>
   save_try ic f2d st s =
     Inr \<lparr>data_profile = Some (profile s), data_portfolios = Some (portfolioItems s),
          data_images = Some (slots (image_to_save ic f2d st s Background)
                                    (image_to_save ic f2d st s Profile))\<rparr>"
  by (auto simp: save_try_def await_def encode_fails_def image_to_save_def
        split: option.splits sum.splits)

lemma setPortfolioData_merged:
  "setPortfolioData
     \<lparr>data_profile = Some (profile s), data_portfolios = Some (portfolioItems s),
      data_images = Some (slots (image_to_save ic f2d st s Background)
                                (image_to_save ic f2d st s Profile))\<rparr> st =
   merged_record ic f2d st s"
  by (simp add: setPortfolioData_def merged_record_def)

text \<open>Saving the same draft on top of its own merged record gives that record again.\<close>

lemma image_to_save_merged:
  "image_to_save ic f2d (merged_record ic f2d st s) s sid = image_to_save ic f2d st s sid"
  by (cases sid) (simp_all add: image_to_save_def merged_record_def slots_def split: option.splits)

lemma merged_record_idem:
  "merged_record ic f2d (merged_record ic f2d st s) s = merged_record ic f2d st s"
  unfolding merged_record_def [of ic f2d "merged_record ic f2d st s" s] image_to_save_merged
  by (simp add: merged_record_def)

lemma saveChanges_items:
  "portfolioItems (fst (snd (snd (saveChanges ic f2d w st s)))) = portfolioItems s"
  by (simp add: saveChanges_def Let_def split: sum.splits)

lemma saveChanges_store_items:
  "store_portfolios (fst (saveChanges ic f2d w st s)) = store_portfolios st \<or>
   store_portfolios (fst (saveChanges ic f2d w st s)) = portfolioItems s"
  by (auto simp: saveChanges_def Let_def setPortfolioData_def split: sum.splits
        dest!: save_try_Inr_shape)

lemma saveChanges_written:
  "fst (snd (saveChanges ic f2d w st s)) = None \<or>
   fst (snd (saveChanges ic f2d w st s)) = Some (fst (saveChanges ic f2d w st s))"
  by (simp add: saveChanges_def Let_def split: sum.splits)

lemma new_background_draft_sel:
  "files new_background_draft Background = Some png_file"
  "files new_background_draft Profile = None"
  "imageStatus new_background_draft Background = New"
  "imageStatus new_background_draft Profile = Initial"
  "profile new_background_draft = store_profile placeholderData"
  "portfolioItems new_background_draft = store_portfolios placeholderData"
  by (simp_all add: new_background_draft_def step_def setImage_files setImage_status accepted_png)

lemma new_background_draft_valid: "isFormValid new_background_draft"
proof -
  have "new_background_draft = validateForm new_background_draft"
    by (simp add: new_background_draft_def step_def validateForm_idem)
  moreover have "isFormValid (validateForm new_background_draft)"
    unfolding isFormValid_validateForm
    using placeholder_profile_ok placeholder_item_ok by (simp add: new_background_draft_sel)
  ultimately show ?thesis by simp
qed


subsection \<open>The two example drafts with a blank entry field\<close>

lemma draft_blank_date_valid: "isFormValid (validateForm draft_blank_date)"
  unfolding isFormValid_validateForm
  by (simp add: draft_blank_date_def handlePortfolioChange_def placeholder_profile_ok
        placeholder_portfolios item_ok_def nonBlank_js nonBlank_js_append js_not_Nil
        isWhiteSpace_def)

lemma draft_blank_date_spec: "\<not> spec_isValid draft_blank_date"
  by (simp add: spec_isValid_def draft_blank_date_def handlePortfolioChange_def
        placeholder_portfolios blank_space)

lemma draft_blank_position_invalid: "\<not> isFormValid (validateForm draft_blank_position)"
  unfolding isFormValid_validateForm
  by (simp add: draft_blank_position_def handlePortfolioChange_def
        placeholder_portfolios item_ok_def blank_space)

lemma draft_blank_position_spec: "spec_isValid_untrimmed draft_blank_position"
  by (simp add: spec_isValid_untrimmed_def draft_blank_position_def handlePortfolioChange_def
        placeholder_profile_ok placeholder_portfolios js_not_Nil)


subsection \<open>Entries\<close>

lemma set_item_field_frame:
  "get_item_field name (set_item_field name v item) = v"
  "item_id (set_item_field name v item) = item_id item"
  "name' \<noteq> name \<Longrightarrow> get_item_field name' (set_item_field name v item) = get_item_field name' item"
  by (cases name; cases name'; simp)+

lemma distinct_map_upd:
  assumes "distinct (map f xs)" and "i < length xs" and "f (xs ! i) = k"
  shows "map (\<lambda>x. if f x = k then g x else x) xs = xs[i := g (xs ! i)]"
proof (rule nth_equalityI)
  show "length (map (\<lambda>x. if f x = k then g x else x) xs) = length (xs[i := g (xs ! i)])"
    by simp
next
  fix j
  assume "j < length (map (\<lambda>x. if f x = k then g x else x) xs)"
  then have j: "j < length xs" by simp
  show "map (\<lambda>x. if f x = k then g x else x) xs ! j = xs[i := g (xs ! i)] ! j"
  proof (cases "j = i")
    case True
    with assms show ?thesis by simp
  next
    case False
    have "map f xs ! j \<noteq> map f xs ! i"
      using assms(1,2) j False by (simp add: nth_eq_iff_index_eq del: nth_map)
    then have "f (xs ! j) \<noteq> k"
      using assms(2,3) j by simp
    with False j show ?thesis by simp
  qed
qed

lemma distinct_filter_remove:
  "distinct (map f xs) \<Longrightarrow> i < length xs \<Longrightarrow> f (xs ! i) = k \<Longrightarrow>
   filter (\<lambda>x. f x \<noteq> k) xs = take i xs @ drop (Suc i) xs"
proof (induction xs arbitrary: i)
  case Nil
  then show ?case by simp
next
  case (Cons x xs)
  show ?case
  proof (cases i)
    case 0
    with Cons.prems have "f x = k" and "\<forall>y\<in>set xs. f y \<noteq> k"
      by (auto simp: image_iff)
    then have "filter (\<lambda>x. f x \<noteq> k) xs = xs"
      by (simp add: filter_id_conv)
    with \<open>f x = k\<close> 0 show ?thesis by simp
  next
    case (Suc j)
    with Cons.prems have j: "j < length xs" "f (xs ! j) = k" "distinct (map f xs)"
      by auto
    then have "f x \<noteq> k"
      using Cons.prems(1) nth_mem [OF j(1)] by (auto simp: image_iff)
    with Cons.IH [OF j(3) j(1) j(2)] Suc show ?thesis by simp
  qed
qed

lemma two_entry_draft_items: "portfolioItems two_entry_draft = two_entries"
  by (simp add: two_entry_draft_def)


subsection \<open>A slot that stays removed\<close>

lemma step_keeps_Removed:
  "imageStatus s sid = Removed \<Longrightarrow> \<not> supplies sid a \<Longrightarrow>
   imageStatus (step url a s) sid = Removed"
  by (cases a) (auto simp: step_status setImage_status supplies_def split: option.splits)

lemma run_keeps_Removed:
  "imageStatus s sid = Removed \<Longrightarrow> \<forall>a\<in>set as. \<not> supplies sid a \<Longrightarrow>
   imageStatus (run url as s) sid = Removed"
  unfolding run_def
  by (induction as arbitrary: s) (simp_all add: step_keeps_Removed)

lemma run_validated: "\<exists>s'. run url as (validateForm s) = validateForm s'"
  unfolding run_def
proof (induction as arbitrary: s)
  case Nil
  show ?case by auto
next
  case (Cons a as)
  obtain t where "step url a (validateForm s) = validateForm t"
    by (auto simp: step_def)
  with Cons.IH [of t] show ?case by simp
qed

lemma run_openDraft_invalid:
  assumes "imageStatus (run url as (openDraft store)) sid = Removed"
  shows "\<not> isFormValid (run url as (openDraft store))"
proof -
  obtain s' where s': "run url as (openDraft store) = validateForm s'"
    unfolding openDraft_def using run_validated by blast
  with assms have "imageStatus s' sid = Removed" by simp
  then show ?thesis
    unfolding s' by (rule invalid_if_Removed)
qed

lemma truthy_iff: "truthy v \<longleftrightarrow> (\<exists>str. v = Some str \<and> str \<noteq> [])"
  by (cases v) (simp_all add: truthy_def falsy_def)

lemma empty_image_store_sel:
  "store_images empty_image_store Background = Some []"
  by (simp add: empty_image_store_def slots_def)

section \<open>The claims\<close>

subsection \<open>C1: the validity flag\<close>

text \<open>
  C1 (as the code has it). For every draft, the flag that \<open>validateForm\<close> computes is
  true if and only if each of the three profile fields is non-blank after trimming; for
  every entry of the list, its position, company and description are non-blank after
  trimming and its start date and end date are non-empty (the two dates are not
  trimmed: they come from month inputs); and neither image slot has status \<open>removed\<close>.
\<close>

theorem C1_isValid_iff:
  "isFormValid (validateForm s) \<longleftrightarrow>
     (nonBlank (profile_name (profile s)) \<and> nonBlank (profile_title (profile s)) \<and>
      nonBlank (profile_description (profile s))) \<and>
     (\<forall>item\<in>set (portfolioItems s).
        nonBlank (item_position item) \<and> nonBlank (item_company item) \<and>
        item_startDate item \<noteq> [] \<and> item_endDate item \<noteq> [] \<and>
        nonBlank (item_description item)) \<and>
     imageStatus s Background \<noteq> Removed \<and> imageStatus s Profile \<noteq> Removed"
  unfolding isFormValid_validateForm item_ok_def by (rule refl)

text \<open>
  An instance of C1: the draft opened from \<open>saved_store\<close>, which has one entry, is valid,
  and it is invalid once its profile image is removed.
\<close>

theorem C1_isValid_iff_witness:
  "isFormValid (validateForm (openDraft saved_store)) \<and>
   portfolioItems (openDraft saved_store) \<noteq> [] \<and>
   \<not> isFormValid (validateForm (removeImage Profile (openDraft saved_store)))"
  using C1_isValid_iff [of "openDraft saved_store"]
    C1_isValid_iff [of "removeImage Profile (openDraft saved_store)"]
    placeholder_profile_ok placeholder_item_ok
  by (simp add: item_ok_def placeholder_portfolios removeImage_def handleFileChange_def)

text \<open>
  C1 as stated, with the same notion of non-blank for all five fields of an entry, fails
  under either reading of non-blank. With blank meaning empty after trimming: an entry
  whose start date is one space has a blank field, and the draft is valid. With blank
  meaning empty: an entry whose position is one space has no empty field, and the draft
  is invalid.
\<close>

theorem C1_counterexample:
  "\<not> (isFormValid (validateForm draft_blank_date) \<longleftrightarrow> spec_isValid draft_blank_date) \<and>
   \<not> (isFormValid (validateForm draft_blank_position) \<longleftrightarrow>
        spec_isValid_untrimmed draft_blank_position)"
  using draft_blank_date_valid draft_blank_date_spec draft_blank_position_invalid
    draft_blank_position_spec by simp


subsection \<open>C2: the transitions of an image slot\<close>

text \<open>
  C2. For every slot and every state of the page, whatever the current status of the
  slot: an accepted \<open>setImage\<close> with a file sets the status of the slot to \<open>new\<close> and the
  pending file to that file; \<open>setImage\<close> with \<open>null\<close> sets the status to \<open>removed\<close> and
  discards the pending file; the other slot keeps its status and file; and a slot that
  has left \<open>initial\<close> is never \<open>initial\<close> again after any sequence of edits.
\<close>

theorem C2_setImage_transitions:
  "(accepted file \<longrightarrow>
      imageStatus (setImage url sid (Some file) s) sid = New \<and>
      files (setImage url sid (Some file) s) sid = Some file) \<and>
   imageStatus (setImage url sid None s) sid = Removed \<and>
   files (setImage url sid None s) sid = None \<and>
   (sid' \<noteq> sid \<longrightarrow>
      imageStatus (setImage url sid fileOrNull s) sid' = imageStatus s sid' \<and>
      files (setImage url sid fileOrNull s) sid' = files s sid') \<and>
   (imageStatus s sid \<noteq> Initial \<longrightarrow> imageStatus (run url as s) sid \<noteq> Initial)"
  by (auto simp: setImage_status setImage_files run_not_Initial split: option.splits)

text \<open>
  An instance of C2: on the draft of \<open>saved_store\<close>, whose background is \<open>initial\<close>, a PNG
  makes it \<open>new\<close> and a removal makes it \<open>removed\<close>; after the removal, an upload followed
  by a removal does not bring it back to \<open>initial\<close>.
\<close>

theorem C2_setImage_transitions_witness:
  "accepted png_file \<and>
   imageStatus (openDraft saved_store) Background = Initial \<and>
   imageStatus (setImage blobUrl Background (Some png_file) (openDraft saved_store)) Background = New \<and>
   files (setImage blobUrl Background (Some png_file) (openDraft saved_store)) Background = Some png_file \<and>
   imageStatus (setImage blobUrl Background None (openDraft saved_store)) Background = Removed \<and>
   Profile \<noteq> Background \<and>
   imageStatus (setImage blobUrl Background None (openDraft saved_store)) Profile = Initial \<and>
   imageStatus (removeImage Background (openDraft saved_store)) Background \<noteq> Initial \<and>
   imageStatus (run blobUrl [SetImage Background (Some png_file), SetImage Background None]
       (removeImage Background (openDraft saved_store))) Background \<noteq> Initial"
  using C2_setImage_transitions [of png_file blobUrl Background "openDraft saved_store" Profile None]
    C2_setImage_transitions [of png_file blobUrl Background
      "removeImage Background (openDraft saved_store)" Profile None
      "[SetImage Background (Some png_file), SetImage Background None]"]
    accepted_png
  by (simp add: removeImage_def)


subsection \<open>C3: saving an invalid draft\<close>

text \<open>
  C3. When \<open>saveChanges\<close> is called while the validity flag is false, it alerts the user
  to complete the form and changes nothing: nothing is written to local storage, and
  the store and the whole page state are returned as they were.
\<close>

theorem C3_save_blocked:
  "\<not> isFormValid s \<Longrightarrow>
   saveChanges imageCompression fileToDataUrl setItem store s =
     (store, None, s, [Alert ''Please complete all required fields and upload both images.''])"
  by (simp add: saveChanges_def)

text \<open>An instance of C3: the draft of a fresh install, which has no images.\<close>

theorem C3_save_blocked_witness:
  "\<not> isFormValid (openDraft placeholderData) \<and>
   saveChanges compress_ok dataUrl_ok setItem_ok placeholderData (openDraft placeholderData) =
     (placeholderData, None, openDraft placeholderData,
      [Alert ''Please complete all required fields and upload both images.''])"
  using C3_save_blocked [of "openDraft placeholderData" compress_ok dataUrl_ok setItem_ok
      placeholderData]
    openDraft_placeholder_invalid by simp


subsection \<open>C4: opening and saving without edits\<close>

text \<open>
  C4. For every persisted record, if the draft opened from it has both slots \<open>initial\<close>,
  then saving it without edits hands \<open>setPortfolioData\<close> exactly the profile, the entries
  and the images of the record, whatever the compression and the encoder would do (they
  are not called); the store after the save equals the store before, and what is written
  to local storage, if anything, is that same record. When the draft is valid and the
  write succeeds, the record is written and the save succeeds with no alert; when the
  write throws, nothing is written and the failure is alerted.
\<close>

theorem C4_roundtrip:
  assumes "imageStatus (openDraft store) Background = Initial"
    and "imageStatus (openDraft store) Profile = Initial"
  shows "save_try imageCompression fileToDataUrl store ((openDraft store)\<lparr>isSaving := True\<rparr>) =
           Inr \<lparr>data_profile = Some (store_profile store),
                data_portfolios = Some (store_portfolios store),
                data_images = Some (store_images store)\<rparr> \<and>
         fst (saveChanges imageCompression fileToDataUrl setItem store (openDraft store)) = store \<and>
         (fst (snd (saveChanges imageCompression fileToDataUrl setItem store (openDraft store))) = None \<or>
          fst (snd (saveChanges imageCompression fileToDataUrl setItem store (openDraft store))) =
            Some store) \<and>
         (isFormValid (openDraft store) \<and> \<not> isl (setItem store) \<longrightarrow>
            saveChanges imageCompression fileToDataUrl setItem store (openDraft store) =
              (store, Some store,
               (openDraft store)\<lparr>notification_show := True,
                                  notification_message := ''Portfolio Saved!''\<rparr>,
               [])) \<and>
         (isFormValid (openDraft store) \<and> isl (setItem store) \<longrightarrow>
            saveChanges imageCompression fileToDataUrl setItem store (openDraft store) =
              (store, None, openDraft store,
               [ConsoleError ''Failed to save changes:'',
                Alert ''Could not save changes. Please try again.'']))"
proof -
  let ?s1 = "(openDraft store)\<lparr>isSaving := True\<rparr>"
  have "save_try imageCompression fileToDataUrl store ?s1 =
          Inr \<lparr>data_profile = Some (store_profile store),
               data_portfolios = Some (store_portfolios store),
               data_images = Some (slots (store_images store Background) (store_images store Profile))\<rparr>"
    by (subst save_try_no_files) (simp_all add: assms del: openDraft_sel(4))
  then have written: "save_try imageCompression fileToDataUrl store ?s1 =
          Inr \<lparr>data_profile = Some (store_profile store),
               data_portfolios = Some (store_portfolios store),
               data_images = Some (store_images store)\<rparr>"
    by (simp only: slots_eta)
  have sv: "(openDraft store)\<lparr>isSaving := True, notification_show := True,
               notification_message := ''Portfolio Saved!'', isSaving := False\<rparr> =
            (openDraft store)\<lparr>notification_show := True, notification_message := ''Portfolio Saved!''\<rparr>"
    by (simp add: openDraft_def validateForm_def initialPage_def Let_def)
  have sf: "(openDraft store)\<lparr>isSaving := True, isSaving := False\<rparr> = openDraft store"
    by (simp add: openDraft_def validateForm_def initialPage_def Let_def)
  show ?thesis
    by (cases "setItem store")
       (simp_all add: saveChanges_def Let_def written setPortfolioData_same sv sf
          del: openDraft_sel(4))
qed

text \<open>
  An instance of C4: \<open>saved_store\<close> is opened and saved, with a compression that would
  reject every file; the save succeeds, the record written is \<open>saved_store\<close> and the
  store is as before.
\<close>

theorem C4_roundtrip_witness:
  "imageStatus (openDraft saved_store) Background = Initial \<and>
   imageStatus (openDraft saved_store) Profile = Initial \<and>
   isFormValid (openDraft saved_store) \<and>
   \<not> isl (setItem_ok saved_store) \<and>
   saveChanges compress_fail dataUrl_ok setItem_ok saved_store (openDraft saved_store) =
     (saved_store, Some saved_store,
      (openDraft saved_store)\<lparr>notification_show := True,
                                notification_message := ''Portfolio Saved!''\<rparr>,
      []) \<and>
   isl (setItem_quota saved_store) \<and>
   saveChanges compress_fail dataUrl_ok setItem_quota saved_store (openDraft saved_store) =
     (saved_store, None, openDraft saved_store,
      [ConsoleError ''Failed to save changes:'',
       Alert ''Could not save changes. Please try again.''])"
proof -
  have b: "imageStatus (openDraft saved_store) Background = Initial" by simp
  have p: "imageStatus (openDraft saved_store) Profile = Initial" by simp
  have ok: "\<not> isl (setItem_ok saved_store)" by (simp add: setItem_ok_def)
  have quota: "isl (setItem_quota saved_store)" by (simp add: setItem_quota_def)
  show ?thesis
    using C4_roundtrip [OF b p, of compress_fail dataUrl_ok setItem_ok]
      C4_roundtrip [OF b p, of compress_fail dataUrl_ok setItem_quota]
      b p ok quota openDraft_saved_valid
    by (simp del: openDraft_sel(4))
qed


subsection \<open>C5: at most ten entries\<close>

text \<open>
  C5. \<open>addPortfolioItem\<close> on a draft that already has ten entries (or more) alerts the
  user and returns the page state unchanged; below ten it appends one entry. A draft
  with at most ten entries still has at most ten after \<open>addPortfolioItem\<close>, after any
  edit, after any sequence of edits and after a save; a draft opened from a store with
  at most ten entries has at most ten after any sequence of edits, and a save of a draft
  with at most ten entries leaves at most ten in the store and in what it writes to
  local storage.
\<close>

theorem C5_entry_limit:
  "(10 \<le> length (portfolioItems s) \<longrightarrow>
      addPortfolioItem now s = (s, [Alert ''Maximum 10 portfolio entries allowed''])) \<and>
   (length (portfolioItems s) < 10 \<longrightarrow>
      length (portfolioItems (fst (addPortfolioItem now s))) = length (portfolioItems s) + 1) \<and>
   (length (portfolioItems s) \<le> 10 \<longrightarrow>
      length (portfolioItems (fst (addPortfolioItem now s))) \<le> 10 \<and>
      length (portfolioItems (step url a s)) \<le> 10 \<and>
      length (portfolioItems (run url as s)) \<le> 10 \<and>
      length (portfolioItems (fst (snd (snd (saveChanges ic f2d w store s))))) \<le> 10) \<and>
   (length (store_portfolios store) \<le> 10 \<longrightarrow>
      length (portfolioItems (run url as (openDraft store))) \<le> 10 \<and>
      (length (portfolioItems s) \<le> 10 \<longrightarrow>
         length (store_portfolios (fst (saveChanges ic f2d w store s))) \<le> 10 \<and>
         (\<forall>r. fst (snd (saveChanges ic f2d w store s)) = Some r \<longrightarrow>
              length (store_portfolios r) \<le> 10)))"
proof -
  have st: "length (store_portfolios (fst (saveChanges ic f2d w store s))) \<le> 10"
    if "length (store_portfolios store) \<le> 10" "length (portfolioItems s) \<le> 10"
    using that saveChanges_store_items [of ic f2d w store s] by auto
  have wr: "length (store_portfolios r) \<le> 10"
    if "length (store_portfolios store) \<le> 10" "length (portfolioItems s) \<le> 10"
      "fst (snd (saveChanges ic f2d w store s)) = Some r" for r
    using st [OF that(1,2)] that(3) saveChanges_written [of ic f2d w store s] by auto
  from st wr show ?thesis
    by (auto simp: addPortfolioItem_def step_length_le run_length_le saveChanges_items)
qed

text \<open>
  An instance of C5: the draft with ten entries refuses an eleventh and stays at ten
  after two more attempts; the draft of a fresh install, with one entry, gets a second.
\<close>

theorem C5_entry_limit_witness:
  "length (portfolioItems full_draft) = 10 \<and>
   addPortfolioItem 11 full_draft = (full_draft, [Alert ''Maximum 10 portfolio entries allowed'']) \<and>
   length (portfolioItems (run blobUrl [AddEntry 11, AddEntry 12] full_draft)) \<le> 10 \<and>
   length (store_portfolios placeholderData) = 1 \<and>
   length (portfolioItems (fst (addPortfolioItem 2 (openDraft placeholderData)))) = 2"
  using C5_entry_limit [of full_draft 11 blobUrl "AddEntry 11" "[AddEntry 11, AddEntry 12]"
      compress_ok dataUrl_ok setItem_ok placeholderData]
    C5_entry_limit [of "openDraft placeholderData" 2 blobUrl "AddEntry 11" "[]"
      compress_ok dataUrl_ok setItem_ok placeholderData]
    full_draft_length
  by (simp add: placeholder_portfolios)


subsection \<open>C6: rejected uploads\<close>

text \<open>
  C6. For every slot and file, \<open>setImage\<close> with a file larger than 3 MiB, or whose MIME
  type is not one of the allowed ones (\<open>image/png\<close> for PNG; \<open>image/jpeg\<close> and \<open>image/jpg\<close>
  for JPEG), only shows the error of the upload box of the slot: the status and the
  pending file of every slot, the preview and the rest of the page are unchanged.
\<close>

theorem C6_setImage_rejects:
  "file_size file > 3 * 1024 * 1024 \<or> file_type file \<notin> set allowedTypes \<Longrightarrow>
   setImage url sid (Some file) s =
     s\<lparr>uploadBox := (uploadBox s)(sid := triggerError
          (if file_size file > 3 * 1024 * 1024 then ''File size must be less than 3MB.''
           else ''Invalid file type. Please use PNG, JPG, or JPEG.'') (uploadBox s sid))\<rparr> \<and>
   imageStatus (setImage url sid (Some file) s) = imageStatus s \<and>
   files (setImage url sid (Some file) s) = files s \<and>
   previewUrl (uploadBox (setImage url sid (Some file) s) sid) = previewUrl (uploadBox s sid) \<and>
   error_show (uploadBox (setImage url sid (Some file) s) sid)"
  by (auto simp: setImage_def handleFile_def triggerError_def)

text \<open>
  An instance of C6: a PNG one byte over 3 MiB and a small GIF, offered for the profile
  image of the draft of \<open>saved_store\<close>.
\<close>

theorem C6_setImage_rejects_witness:
  "file_size big_file > 3 * 1024 * 1024 \<and>
   file_type gif_file \<notin> set allowedTypes \<and>
   imageStatus (setImage blobUrl Profile (Some big_file) (openDraft saved_store)) Profile = Initial \<and>
   files (setImage blobUrl Profile (Some big_file) (openDraft saved_store)) Profile = None \<and>
   error_message (uploadBox (setImage blobUrl Profile (Some big_file) (openDraft saved_store)) Profile)
     = ''File size must be less than 3MB.'' \<and>
   imageStatus (setImage blobUrl Profile (Some gif_file) (openDraft saved_store)) Profile = Initial \<and>
   error_message (uploadBox (setImage blobUrl Profile (Some gif_file) (openDraft saved_store)) Profile)
     = ''Invalid file type. Please use PNG, JPG, or JPEG.''"
proof -
  have big: "file_size big_file > 3 * 1024 * 1024"
    by (simp add: big_file_def)
  have small: "\<not> file_size gif_file > 3 * 1024 * 1024"
    by (simp add: gif_file_def)
  have gif: "file_type gif_file \<notin> set allowedTypes"
    by (simp add: gif_file_def allowedTypes_def js_def)
  note a = C6_setImage_rejects [OF disjI1 [OF big], of blobUrl Profile "openDraft saved_store"]
  note b = C6_setImage_rejects [OF disjI2 [OF gif], of blobUrl Profile "openDraft saved_store"]
  show ?thesis
    using big small gif a b by (simp add: triggerError_def)
qed


subsection \<open>C7: a save that fails\<close>

text \<open>
  C7. For a valid draft, \<open>saveChanges\<close> ends in one of three ways. When the compression
  or the encoding fails for the pending file of a slot, nothing is written to local
  storage, the store is as it was, the failure is logged and alerted, and the page state
  is returned with only the saving flag reset. When every image step succeeds and the
  write to local storage throws, nothing is written either, the failure is logged and
  alerted and the page state is returned with only the saving flag reset; the store in
  memory then already holds the merged record. When nothing fails, the merged record,
  made of the profile and the entries of the draft and the two resolved images, is
  written whole. So local storage is never written in part, every failure is shown to
  the user, and the draft is kept: saving it again on top of the merged record gives
  the same record.
\<close>

theorem C7_save_failure:
  assumes "isFormValid s"
  shows "(encode_fails imageCompression fileToDataUrl (files s Background) \<or>
          encode_fails imageCompression fileToDataUrl (files s Profile) \<longrightarrow>
            saveChanges imageCompression fileToDataUrl setItem store s =
              (store, None, s\<lparr>isSaving := False\<rparr>,
               [ConsoleError ''Failed to save changes:'',
                Alert ''Could not save changes. Please try again.''])) \<and>
         (\<not> (encode_fails imageCompression fileToDataUrl (files s Background) \<or>
             encode_fails imageCompression fileToDataUrl (files s Profile)) \<and>
          isl (setItem (merged_record imageCompression fileToDataUrl store s)) \<longrightarrow>
            saveChanges imageCompression fileToDataUrl setItem store s =
              (merged_record imageCompression fileToDataUrl store s, None,
               s\<lparr>isSaving := False\<rparr>,
               [ConsoleError ''Failed to save changes:'',
                Alert ''Could not save changes. Please try again.''])) \<and>
         (\<not> (encode_fails imageCompression fileToDataUrl (files s Background) \<or>
             encode_fails imageCompression fileToDataUrl (files s Profile)) \<and>
          \<not> isl (setItem (merged_record imageCompression fileToDataUrl store s)) \<longrightarrow>
            saveChanges imageCompression fileToDataUrl setItem store s =
              (merged_record imageCompression fileToDataUrl store s,
               Some (merged_record imageCompression fileToDataUrl store s),
               s\<lparr>notification_show := True, notification_message := ''Portfolio Saved!'',
                 isSaving := False\<rparr>,
               [])) \<and>
         merged_record imageCompression fileToDataUrl
           (merged_record imageCompression fileToDataUrl store s) (s\<lparr>isSaving := False\<rparr>) =
           merged_record imageCompression fileToDataUrl store s \<and>
         isFormValid (s\<lparr>isSaving := False\<rparr>)"
proof (cases "encode_fails imageCompression fileToDataUrl (files s Background) \<or>
              encode_fails imageCompression fileToDataUrl (files s Profile)")
  case True
  then obtain reason where
    "save_try imageCompression fileToDataUrl store (s\<lparr>isSaving := True\<rparr>) = Inl reason"
    using save_try_Inl_iff [of imageCompression fileToDataUrl store "s\<lparr>isSaving := True\<rparr>"]
    by auto
  with True assms show ?thesis
    by (simp add: saveChanges_def Let_def merged_record_idem)
next
  case False
  then have "save_try imageCompression fileToDataUrl store (s\<lparr>isSaving := True\<rparr>) =
     Inr \<lparr>data_profile = Some (profile s), data_portfolios = Some (portfolioItems s),
          data_images = Some (slots (image_to_save imageCompression fileToDataUrl store s Background)
                                    (image_to_save imageCompression fileToDataUrl store s Profile))\<rparr>"
    using save_try_ok [of imageCompression fileToDataUrl "s\<lparr>isSaving := True\<rparr>" store]
    by simp
  with False assms show ?thesis
    by (cases "setItem (merged_record imageCompression fileToDataUrl store s)")
       (simp_all add: saveChanges_def Let_def setPortfolioData_merged merged_record_idem)
qed

text \<open>
  An instance of C7: the draft of \<open>saved_store\<close> with a new background image, saved
  with a compression that rejects; saved with a write that exceeds the quota; and saved
  with nothing failing, where the record written holds the encoded new background and
  the stored profile image.
\<close>

theorem C7_save_failure_witness:
  "isFormValid new_background_draft \<and>
   encode_fails compress_fail dataUrl_ok (files new_background_draft Background) \<and>
   saveChanges compress_fail dataUrl_ok setItem_ok saved_store new_background_draft =
     (saved_store, None, new_background_draft\<lparr>isSaving := False\<rparr>,
      [ConsoleError ''Failed to save changes:'',
       Alert ''Could not save changes. Please try again.'']) \<and>
   \<not> encode_fails compress_ok dataUrl_ok (files new_background_draft Background) \<and>
   \<not> encode_fails compress_ok dataUrl_ok (files new_background_draft Profile) \<and>
   merged_record compress_ok dataUrl_ok saved_store new_background_draft =
     \<lparr>store_profile = store_profile placeholderData,
      store_portfolios = store_portfolios placeholderData,
      store_images = slots (Some (js ''data:'' @ js ''image/png'' @ js '';base64,'' @ js ''me.png''))
                           (Some (js ''data:image/jpeg;base64,BBBB''))\<rparr> \<and>
   isl (setItem_quota (merged_record compress_ok dataUrl_ok saved_store new_background_draft)) \<and>
   saveChanges compress_ok dataUrl_ok setItem_quota saved_store new_background_draft =
     (merged_record compress_ok dataUrl_ok saved_store new_background_draft, None,
      new_background_draft\<lparr>isSaving := False\<rparr>,
      [ConsoleError ''Failed to save changes:'',
       Alert ''Could not save changes. Please try again.'']) \<and>
   \<not> isl (setItem_ok (merged_record compress_ok dataUrl_ok saved_store new_background_draft)) \<and>
   saveChanges compress_ok dataUrl_ok setItem_ok saved_store new_background_draft =
     (merged_record compress_ok dataUrl_ok saved_store new_background_draft,
      Some (merged_record compress_ok dataUrl_ok saved_store new_background_draft),
      new_background_draft\<lparr>notification_show := True,
        notification_message := ''Portfolio Saved!'', isSaving := False\<rparr>,
      [])"
proof -
  have f: "encode_fails compress_fail dataUrl_ok (files new_background_draft Background)"
    by (simp add: new_background_draft_sel encode_fails_def compress_fail_def)
  have g: "\<not> encode_fails compress_ok dataUrl_ok (files new_background_draft Background)"
    "\<not> encode_fails compress_ok dataUrl_ok (files new_background_draft Profile)"
    by (simp_all add: new_background_draft_sel encode_fails_def compress_ok_def dataUrl_ok_def)
  have m: "merged_record compress_ok dataUrl_ok saved_store new_background_draft =
     \<lparr>store_profile = store_profile placeholderData,
      store_portfolios = store_portfolios placeholderData,
      store_images = slots (Some (js ''data:'' @ js ''image/png'' @ js '';base64,'' @ js ''me.png''))
                           (Some (js ''data:image/jpeg;base64,BBBB''))\<rparr>"
    by (simp add: merged_record_def image_to_save_def new_background_draft_sel
          compress_ok_def dataUrl_ok_def png_file_def)
  have q: "isl (setItem_quota r)" and k: "\<not> isl (setItem_ok r)" for r
    by (simp_all add: setItem_quota_def setItem_ok_def)
  note v = new_background_draft_valid
  show ?thesis
    using C7_save_failure [OF v, of compress_fail dataUrl_ok setItem_ok saved_store]
      C7_save_failure [OF v, of compress_ok dataUrl_ok setItem_quota saved_store]
      C7_save_failure [OF v, of compress_ok dataUrl_ok setItem_ok saved_store]
      v f g m q k
    by simp
qed


subsection \<open>C8: a fresh install\<close>

text \<open>
  C8. When nothing is persisted, the draft that the edit page opens has the profile name
  "John Doe" and the title "Senior Frontend Developer", exactly one entry, with start
  date "2023-01" and end date "2025-01", no image in the store, no pending file and no
  preview for either slot, and its validity flag is false.
\<close>

theorem C8_fresh_install:
  "profile_name (profile (openDraft (usePortfolioStore None))) = js ''John Doe'' \<and>
   profile_title (profile (openDraft (usePortfolioStore None))) = js ''Senior Frontend Developer'' \<and>
   length (portfolioItems (openDraft (usePortfolioStore None))) = 1 \<and>
   map item_startDate (portfolioItems (openDraft (usePortfolioStore None))) = [js ''2023-01''] \<and>
   map item_endDate (portfolioItems (openDraft (usePortfolioStore None))) = [js ''2025-01''] \<and>
   store_images (usePortfolioStore None) Background = None \<and>
   store_images (usePortfolioStore None) Profile = None \<and>
   files (openDraft (usePortfolioStore None)) Background = None \<and>
   files (openDraft (usePortfolioStore None)) Profile = None \<and>
   previewUrl (uploadBox (openDraft (usePortfolioStore None)) Background) = None \<and>
   previewUrl (uploadBox (openDraft (usePortfolioStore None)) Profile) = None \<and>
   isFormValid (openDraft (usePortfolioStore None)) = False"
proof -
  have u: "usePortfolioStore None = placeholderData"
    by (simp add: usePortfolioStore_def)
  have p: "profile_name (store_profile placeholderData) = js ''John Doe''"
    "profile_title (store_profile placeholderData) = js ''Senior Frontend Developer''"
    by (simp_all add: placeholderData_def)
  have b: "previewUrl (uploadBox (openDraft placeholderData) sid) = None" for sid
    by (simp add: openDraft_def initialPage_def slots_def initialBox_def split: slot.split)
  show ?thesis
    unfolding u using openDraft_placeholder_invalid
    by (simp add: placeholder_portfolios b p)
qed


subsection \<open>C9: editing and removing an entry\<close>

text \<open>
  C9. For every page state, id, field and text: \<open>handlePortfolioChange\<close> changes only the
  entry list; the list keeps its length and the ids keep their order; at each position
  the entry is the old one with the named field replaced when its id matches, and the
  old one otherwise; replacing a field sets that field, and leaves the id and the four
  other fields of the entry as they were; when no entry has the id, nothing changes.
  \<open>removePortfolioItem\<close> changes only the entry list; what remains is a subsequence of the
  old list, made of exactly the entries whose id differs, each as often as before; when
  no entry has the id, nothing changes. When the ids are distinct and the entry at
  position \<open>i\<close> has the id, the edit replaces that one entry in place and the removal
  deletes that one entry.
\<close>

theorem C9_entry_frame:
  fixes s :: EditPortfolioPage and eid :: int and name :: item_field and v :: jsstring
  defines "xs \<equiv> portfolioItems s"
    and "ys \<equiv> portfolioItems (handlePortfolioChange eid name v s)"
    and "zs \<equiv> portfolioItems (removePortfolioItem eid s)"
  shows
  "handlePortfolioChange eid name v s = s\<lparr>portfolioItems := ys\<rparr> \<and>
   length ys = length xs \<and>
   map item_id ys = map item_id xs \<and>
   (\<forall>i<length xs. ys ! i =
      (if item_id (xs ! i) = eid then set_item_field name v (xs ! i) else xs ! i)) \<and>
   (\<forall>item. get_item_field name (set_item_field name v item) = v \<and>
           item_id (set_item_field name v item) = item_id item \<and>
           (\<forall>name'. name' \<noteq> name \<longrightarrow>
              get_item_field name' (set_item_field name v item) = get_item_field name' item)) \<and>
   (eid \<notin> item_id ` set xs \<longrightarrow> handlePortfolioChange eid name v s = s) \<and>
   removePortfolioItem eid s = s\<lparr>portfolioItems := zs\<rparr> \<and>
   subseq zs xs \<and>
   (\<forall>item. item \<in> set zs \<longleftrightarrow> item \<in> set xs \<and> item_id item \<noteq> eid) \<and>
   (\<forall>item. item_id item \<noteq> eid \<longrightarrow> count_list zs item = count_list xs item) \<and>
   (eid \<notin> item_id ` set xs \<longrightarrow> removePortfolioItem eid s = s) \<and>
   (distinct (map item_id xs) \<longrightarrow>
      (\<forall>i<length xs. item_id (xs ! i) = eid \<longrightarrow>
         ys = xs[i := set_item_field name v (xs ! i)] \<and>
         zs = take i xs @ drop (Suc i) xs))"
proof -
  have ys: "ys = map (\<lambda>item. if item_id item = eid then set_item_field name v item else item) xs"
    by (simp add: ys_def xs_def handlePortfolioChange_def)
  have zs: "zs = filter (\<lambda>item. item_id item \<noteq> eid) xs"
    by (simp add: zs_def xs_def removePortfolioItem_def)
  have 1: "handlePortfolioChange eid name v s = s\<lparr>portfolioItems := ys\<rparr>"
    by (simp add: ys_def handlePortfolioChange_def)
  have 2: "length ys = length xs"
    by (simp add: ys)
  have 3: "map item_id ys = map item_id xs"
    by (simp add: ys set_item_field_frame(2))
  have 4: "\<forall>i<length xs. ys ! i =
      (if item_id (xs ! i) = eid then set_item_field name v (xs ! i) else xs ! i)"
    by (simp add: ys)
  have 5: "\<forall>item. get_item_field name (set_item_field name v item) = v \<and>
           item_id (set_item_field name v item) = item_id item \<and>
           (\<forall>name'. name' \<noteq> name \<longrightarrow>
              get_item_field name' (set_item_field name v item) = get_item_field name' item)"
    by (simp add: set_item_field_frame)
  have 6: "eid \<notin> item_id ` set xs \<longrightarrow> handlePortfolioChange eid name v s = s"
  proof
    assume "eid \<notin> item_id ` set xs"
    then have "ys = xs"
      unfolding ys by (intro map_idI) auto
    then show "handlePortfolioChange eid name v s = s"
      by (simp add: 1 xs_def)
  qed
  have 7: "removePortfolioItem eid s = s\<lparr>portfolioItems := zs\<rparr>"
    by (simp add: zs_def removePortfolioItem_def)
  have 8: "subseq zs xs"
    by (simp add: zs)
  have 9: "\<forall>item. item \<in> set zs \<longleftrightarrow> item \<in> set xs \<and> item_id item \<noteq> eid"
    by (auto simp: zs)
  have 10: "\<forall>item. item_id item \<noteq> eid \<longrightarrow> count_list zs item = count_list xs item"
    unfolding zs by (induction xs) auto
  have 11: "eid \<notin> item_id ` set xs \<longrightarrow> removePortfolioItem eid s = s"
  proof
    assume "eid \<notin> item_id ` set xs"
    then have "zs = xs"
      unfolding zs by (auto simp: filter_id_conv)
    then show "removePortfolioItem eid s = s"
      by (simp add: 7 xs_def)
  qed
  have 12: "distinct (map item_id xs) \<longrightarrow>
      (\<forall>i<length xs. item_id (xs ! i) = eid \<longrightarrow>
         ys = xs[i := set_item_field name v (xs ! i)] \<and>
         zs = take i xs @ drop (Suc i) xs)"
    unfolding ys zs by (auto simp: distinct_map_upd distinct_filter_remove)
  from 1 2 3 4 5 6 7 8 9 10 11 12 show ?thesis by blast
qed

text \<open>
  An instance of C9: in the draft with entries 1 and 2, the company of entry 2 is
  replaced, entry 2 is removed, and id 3, which no entry has, changes nothing.
\<close>

theorem C9_entry_frame_witness:
  "distinct (map item_id (portfolioItems two_entry_draft)) \<and>
   1 < length (portfolioItems two_entry_draft) \<and>
   item_id (portfolioItems two_entry_draft ! 1) = 2 \<and>
   portfolioItems (handlePortfolioChange 2 I_company (js ''Hooli'') two_entry_draft) =
     [two_entries ! 0, (two_entries ! 1)\<lparr>item_company := js ''Hooli''\<rparr>] \<and>
   portfolioItems (removePortfolioItem 2 two_entry_draft) = [two_entries ! 0] \<and>
   3 \<notin> item_id ` set (portfolioItems two_entry_draft) \<and>
   handlePortfolioChange 3 I_company (js ''Hooli'') two_entry_draft = two_entry_draft \<and>
   removePortfolioItem 3 two_entry_draft = two_entry_draft"
proof -
  have d: "distinct (map item_id (portfolioItems two_entry_draft))"
    by (simp add: two_entry_draft_items two_entries_def)
  have l: "1 < length (portfolioItems two_entry_draft)"
    by (simp add: two_entry_draft_items two_entries_def)
  have i: "item_id (portfolioItems two_entry_draft ! 1) = 2"
    by (simp add: two_entry_draft_items two_entries_def)
  have n: "3 \<notin> item_id ` set (portfolioItems two_entry_draft)"
    by (simp add: two_entry_draft_items two_entries_def)
  from C9_entry_frame [of 2 I_company "js ''Hooli''" two_entry_draft] d l i
  have "portfolioItems (handlePortfolioChange 2 I_company (js ''Hooli'') two_entry_draft) =
          (portfolioItems two_entry_draft)
            [1 := set_item_field I_company (js ''Hooli'') (portfolioItems two_entry_draft ! 1)] \<and>
        portfolioItems (removePortfolioItem 2 two_entry_draft) =
          take 1 (portfolioItems two_entry_draft) @ drop (Suc 1) (portfolioItems two_entry_draft)"
    by blast
  then have a: "portfolioItems (handlePortfolioChange 2 I_company (js ''Hooli'') two_entry_draft) =
     [two_entries ! 0, (two_entries ! 1)\<lparr>item_company := js ''Hooli''\<rparr>]"
    and b: "portfolioItems (removePortfolioItem 2 two_entry_draft) = [two_entries ! 0]"
    by (simp_all add: two_entry_draft_items two_entries_def)
  from C9_entry_frame [of 3 I_company "js ''Hooli''" two_entry_draft] n
  have c: "handlePortfolioChange 3 I_company (js ''Hooli'') two_entry_draft = two_entry_draft \<and>
     removePortfolioItem 3 two_entry_draft = two_entry_draft"
    by blast
  from d l i a b n c show ?thesis by simp
qed


subsection \<open>C10: the status of a slot when the draft opens\<close>

text \<open>
  C10 (as the code has it). When the draft opens, the status of a slot is \<open>initial\<close>
  exactly when the store holds a non-empty string for it (a truthy value), and
  \<open>removed\<close> exactly when it holds \<open>null\<close> or the empty string. So a slot with no
  persisted image starts \<open>removed\<close>, never \<open>initial\<close>, and the draft is invalid. A slot
  that starts \<open>removed\<close> stays so, and the save stays blocked with the alert, through
  every sequence of edits that supplies no accepted file for the slot; an accepted file
  makes the slot \<open>new\<close>.
\<close>

theorem C10_initial_status:
  "(imageStatus (openDraft store) sid = Initial \<longleftrightarrow>
      (\<exists>str. store_images store sid = Some str \<and> str \<noteq> [])) \<and>
   (imageStatus (openDraft store) sid = Removed \<longleftrightarrow>
      store_images store sid = None \<or> store_images store sid = Some []) \<and>
   (store_images store sid = None \<longrightarrow>
      imageStatus (openDraft store) sid = Removed \<and> \<not> isFormValid (openDraft store)) \<and>
   (imageStatus (openDraft store) sid = Removed \<and> (\<forall>a\<in>set as. \<not> supplies sid a) \<longrightarrow>
      imageStatus (run url as (openDraft store)) sid = Removed \<and>
      \<not> isFormValid (run url as (openDraft store)) \<and>
      saveChanges imageCompression fileToDataUrl setItem store (run url as (openDraft store)) =
        (store, None, run url as (openDraft store),
         [Alert ''Please complete all required fields and upload both images.''])) \<and>
   (accepted file \<longrightarrow> imageStatus (step url (SetImage sid (Some file)) s) sid = New)"
proof -
  have 1: "imageStatus (openDraft store) sid = Initial \<longleftrightarrow>
      (\<exists>str. store_images store sid = Some str \<and> str \<noteq> [])"
    by (simp add: truthy_iff)
  have 2: "imageStatus (openDraft store) sid = Removed \<longleftrightarrow>
      store_images store sid = None \<or> store_images store sid = Some []"
    by (cases "store_images store sid") (auto simp: truthy_iff)
  have 3: "store_images store sid = None \<longrightarrow>
      imageStatus (openDraft store) sid = Removed \<and> \<not> isFormValid (openDraft store)"
  proof
    assume "store_images store sid = None"
    then have r: "imageStatus (openDraft store) sid = Removed" by simp
    then have "imageStatus (run url [] (openDraft store)) sid = Removed"
      by (simp add: run_def del: openDraft_sel(4))
    from run_openDraft_invalid [OF this] r
    show "imageStatus (openDraft store) sid = Removed \<and> \<not> isFormValid (openDraft store)"
      by (simp add: run_def del: openDraft_sel(4))
  qed
  have 4: "imageStatus (openDraft store) sid = Removed \<and> (\<forall>a\<in>set as. \<not> supplies sid a) \<longrightarrow>
      imageStatus (run url as (openDraft store)) sid = Removed \<and>
      \<not> isFormValid (run url as (openDraft store)) \<and>
      saveChanges imageCompression fileToDataUrl setItem store (run url as (openDraft store)) =
        (store, None, run url as (openDraft store),
         [Alert ''Please complete all required fields and upload both images.''])"
  proof
    assume a: "imageStatus (openDraft store) sid = Removed \<and> (\<forall>a\<in>set as. \<not> supplies sid a)"
    then have r: "imageStatus (run url as (openDraft store)) sid = Removed"
      using run_keeps_Removed [of "openDraft store" sid as url] by blast
    then have i: "\<not> isFormValid (run url as (openDraft store))"
      by (rule run_openDraft_invalid)
    then have "saveChanges imageCompression fileToDataUrl setItem store (run url as (openDraft store)) =
        (store, None, run url as (openDraft store),
         [Alert ''Please complete all required fields and upload both images.''])"
      by (simp add: saveChanges_def)
    with r i show "imageStatus (run url as (openDraft store)) sid = Removed \<and>
      \<not> isFormValid (run url as (openDraft store)) \<and>
      saveChanges imageCompression fileToDataUrl setItem store (run url as (openDraft store)) =
        (store, None, run url as (openDraft store),
         [Alert ''Please complete all required fields and upload both images.''])"
      by blast
  qed
  have 5: "accepted file \<longrightarrow> imageStatus (step url (SetImage sid (Some file)) s) sid = New"
    by (simp add: step_status setImage_status)
  from 1 2 3 4 5 show ?thesis by blast
qed

text \<open>
  An instance of C10: after a fresh install the background is \<open>removed\<close>, and stays so
  after a rejected GIF and an edit of the name; a PNG makes it \<open>new\<close>. The background of
  \<open>saved_store\<close> opens \<open>initial\<close>, that of \<open>empty_image_store\<close> opens \<open>removed\<close>.
\<close>

theorem C10_initial_status_witness:
  "store_images placeholderData Background = None \<and>
   imageStatus (openDraft placeholderData) Background = Removed \<and>
   \<not> supplies Background (SetImage Background (Some gif_file)) \<and>
   \<not> supplies Background (SetProfileField P_name (js ''Ada'')) \<and>
   imageStatus (run blobUrl [SetImage Background (Some gif_file), SetProfileField P_name (js ''Ada'')]
      (openDraft placeholderData)) Background = Removed \<and>
   \<not> isFormValid (run blobUrl [SetImage Background (Some gif_file), SetProfileField P_name (js ''Ada'')]
      (openDraft placeholderData)) \<and>
   accepted png_file \<and>
   imageStatus (step blobUrl (SetImage Background (Some png_file)) (openDraft placeholderData))
      Background = New \<and>
   imageStatus (openDraft saved_store) Background = Initial \<and>
   imageStatus (openDraft empty_image_store) Background = Removed"
proof -
  have g: "\<not> supplies Background (SetImage Background (Some gif_file))"
    by (simp add: supplies_def accepted_def gif_file_def allowedTypes_def js_def)
  have n: "\<not> supplies Background (SetProfileField P_name (js ''Ada''))"
    by (simp add: supplies_def)
  have r: "imageStatus (openDraft placeholderData) Background = Removed"
    by simp
  have e: "imageStatus (openDraft empty_image_store) Background = Removed"
    using C10_initial_status [of empty_image_store Background]
    by (simp add: empty_image_store_sel)
  note t = C10_initial_status [of placeholderData Background
      "[SetImage Background (Some gif_file), SetProfileField P_name (js ''Ada'')]"
      blobUrl compress_ok dataUrl_ok setItem_ok png_file "openDraft placeholderData"]
  from t g n r accepted_png
  have "imageStatus (run blobUrl [SetImage Background (Some gif_file), SetProfileField P_name (js ''Ada'')]
      (openDraft placeholderData)) Background = Removed \<and>
   \<not> isFormValid (run blobUrl [SetImage Background (Some gif_file), SetProfileField P_name (js ''Ada'')]
      (openDraft placeholderData)) \<and>
   imageStatus (step blobUrl (SetImage Background (Some png_file)) (openDraft placeholderData))
      Background = New"
    by (simp del: openDraft_sel(4))
  with g n r e accepted_png show ?thesis
    by simp
qed

text \<open>
  C10 as stated says \<open>initial\<close> exactly when the persisted value is not \<open>null\<close>. The
  empty string is not \<open>null\<close>, and the slot opens \<open>removed\<close>.
\<close>

theorem C10_counterexample:
  "\<not> (imageStatus (openDraft empty_image_store) Background = Initial \<longleftrightarrow>
       store_images empty_image_store Background \<noteq> None)"
  by (simp add: empty_image_store_sel)

end
